theory Spec2Isabelle
  imports Main
begin

section \<open>The Book entity and its table\<close>

text \<open>
  Modelled from the spec: the declaration of the \<open>Book\<close> model (\<open>models.py\<close>) is not
  part of the sources at hand; the fields are those of section 3 of the specification.
  The source reads and writes them as \<open>book_instance.title\<close>, \<open>.author\<close>,
  \<open>.year_published\<close> and \<open>.review\<close>; the key is read as \<open>pk\<close>. Every GraphQL input
  field is optional, so a value may be Python's \<open>None\<close>; an instance that was never
  saved has \<open>pk = None\<close>. No field carries a non-null constraint (section 3), and
  the class keeps the default manager, \<open>save\<close> and \<open>delete\<close> (section 6: get-all,
  get-by-key, filter-by-field-equality, insert, update-in-place, delete-by-key).
\<close>

record Book =
  pk :: "int option"
  title :: "string option"
  author :: "string option"
  year_published :: "string option"
  review :: "int option"

text \<open>
  \<open>BookInput\<close> of the source: \<open>id\<close>, \<open>title\<close>, \<open>author\<close>, \<open>year_published\<close>,
  \<open>review\<close>, all optional. The field names carry the suffix \<open>_in\<close> because the
  selectors of the two records live in one name space. The value of the scalar
  \<open>graphene.ID\<close> is a string, whatever the client wrote (\<open>id: 1\<close> and \<open>id: "1"\<close>
  both arrive as the string \<open>1\<close>); the characters of an id are taken to be ASCII.
\<close>

record BookInput =
  id_in :: "string option"
  title_in :: "string option"
  author_in :: "string option"
  year_published_in :: "string option"
  review_in :: "int option"

text \<open>
  The exceptions the object-relational mapper raises: \<open>DoesNotExist\<close> is the
  NotFound-class error of the specification, \<open>MultipleObjectsReturned\<close> is what
  \<open>get\<close> raises when several rows match, \<open>ValueError\<close> is what the key field raises
  for a lookup value that is not a number and what \<open>delete\<close> raises on an instance
  without a key.
\<close>

datatype error = DoesNotExist | MultipleObjectsReturned | ValueError

text \<open>
  The table: its rows in storage order and the counter of the auto-incremented key.
\<close>

record db =
  rows :: "Book list"
  next_id :: int

definition empty_db :: db where
  "empty_db = \<lparr>rows = [], next_id = 1\<rparr>"

text \<open>
  The state invariant: every row has a key, keys are unique, and every key is below the
  counter.
\<close>

definition key_below :: "int \<Rightarrow> Book \<Rightarrow> bool" where
  "key_below n r = (case pk r of None \<Rightarrow> False | Some k \<Rightarrow> k < n)"

definition db_ok :: "db \<Rightarrow> bool" where
  "db_ok s \<longleftrightarrow> distinct (map pk (rows s)) \<and> list_all (key_below (next_id s)) (rows s)"

section \<open>The storage accessor\<close>

text \<open>\<open>Book.objects.all()\<close>: every row.\<close>

definition objects_all :: "db \<Rightarrow> Book list" where
  "objects_all s = rows s"

text \<open>
  \<open>Book.objects.get(pk=key)\<close>: the rows with that key are selected; exactly one is
  returned, none raises \<open>DoesNotExist\<close>, several raise \<open>MultipleObjectsReturned\<close>.
  The table is only read.
\<close>

definition objects_get :: "db \<Rightarrow> int option \<Rightarrow> error + Book" where
  "objects_get s key =
     (case filter (\<lambda>r. pk r = key) (rows s) of
        [] \<Rightarrow> Inl DoesNotExist
      | [b] \<Rightarrow> Inr b
      | _ \<Rightarrow> Inl MultipleObjectsReturned)"

text \<open>
  Python's \<open>int(v)\<close> on a string, which the key field applies to a lookup value: white
  space around the literal is dropped; an optional sign and then decimal digits follow,
  where one underscore may stand between two digits; anything else is refused, and so
  is a literal of more than 4300 digits.
\<close>

definition is_space :: "char \<Rightarrow> bool" where
  "is_space c \<longleftrightarrow>
     c \<in> set [CHR '' '', CHR 0x09, CHR 0x0A, CHR 0x0B, CHR 0x0C, CHR 0x0D,
              CHR 0x1C, CHR 0x1D, CHR 0x1E, CHR 0x1F]"

definition strip :: "string \<Rightarrow> string" where
  "strip cs = rev (dropWhile is_space (rev (dropWhile is_space cs)))"

definition digit_of :: "char \<Rightarrow> nat option" where
  "digit_of c =
     (let n = (of_char c :: nat) in if 48 \<le> n \<and> n \<le> 57 then Some (n - 48) else None)"

fun read_digits :: "nat \<Rightarrow> string \<Rightarrow> nat option" where
  "read_digits acc [] = Some acc"
| "read_digits acc (c # cs) =
     (if c = CHR ''_'' then
        (case cs of
           [] \<Rightarrow> None
         | d # ds \<Rightarrow>
             (case digit_of d of None \<Rightarrow> None | Some v \<Rightarrow> read_digits (10 * acc + v) ds))
      else
        (case digit_of c of None \<Rightarrow> None | Some v \<Rightarrow> read_digits (10 * acc + v) cs))"

definition read_nat :: "string \<Rightarrow> nat option" where
  "read_nat cs =
     (case cs of
        [] \<Rightarrow> None
      | c # cs' \<Rightarrow> (case digit_of c of None \<Rightarrow> None | Some v \<Rightarrow> read_digits v cs'))"

definition max_str_digits :: nat where
  "max_str_digits = 4300"

definition py_int :: "string \<Rightarrow> int option" where
  "py_int cs =
     (if max_str_digits < length (filter (\<lambda>c. digit_of c \<noteq> None) cs) then None
      else
        (case strip cs of
           [] \<Rightarrow> None
         | c # r \<Rightarrow>
             if c = CHR ''-'' then map_option (\<lambda>n. - int n) (read_nat r)
             else if c = CHR ''+'' then map_option int (read_nat r)
             else map_option int (read_nat (c # r))))"

text \<open>
  The key field prepares the value of a lookup \<open>pk=v\<close>: \<open>None\<close> stays \<open>None\<close>, a
  string goes through \<open>int(v)\<close>, and a string that is not a number raises
  \<open>ValueError\<close>.
\<close>

definition get_prep_value :: "string option \<Rightarrow> error + int option" where
  "get_prep_value v =
     (case v of
        None \<Rightarrow> Inr None
      | Some cs \<Rightarrow> (case py_int cs of None \<Rightarrow> Inl ValueError | Some k \<Rightarrow> Inr (Some k)))"

text \<open>
  \<open>Book.objects.get(pk=v)\<close> for the value \<open>v\<close> of an \<open>ID\<close>: the value is prepared,
  then looked up. (The argument of \<open>resolve_book\<close> is a \<open>graphene.Int\<close>, a number
  already, and goes to \<open>objects_get\<close> as it is.)
\<close>

definition objects_get_id :: "db \<Rightarrow> string option \<Rightarrow> error + Book" where
  "objects_get_id s v =
     (case get_prep_value v of
        Inl e \<Rightarrow> Inl e
      | Inr key \<Rightarrow> objects_get s key)"

text \<open>\<open>Book.objects.filter(review__exact=n)\<close>: the rows whose review equals \<open>n\<close>.\<close>

definition objects_filter_review :: "db \<Rightarrow> int option \<Rightarrow> Book list" where
  "objects_filter_review s n = filter (\<lambda>r. review r = n) (rows s)"

text \<open>
  \<open>instance.save()\<close>: an instance without a key is inserted under the next key of the
  counter, and the instance receives that key; an instance whose key is in the table
  overwrites the row of that key in place; an instance with a key that is not in the
  table is inserted under it. The instance (with its key) and the new table are
  returned.
\<close>

definition save :: "Book \<Rightarrow> db \<Rightarrow> Book \<times> db" where
  "save b s =
     (case pk b of
        None \<Rightarrow>
          (let b' = b\<lparr>pk := Some (next_id s)\<rparr>
           in (b', s\<lparr>rows := rows s @ [b'], next_id := next_id s + 1\<rparr>))
      | Some k \<Rightarrow>
          if list_ex (\<lambda>r. pk r = Some k) (rows s)
          then (b, s\<lparr>rows := map (\<lambda>r. if pk r = Some k then b else r) (rows s)\<rparr>)
          else (b, s\<lparr>rows := rows s @ [b], next_id := max (next_id s) (k + 1)\<rparr>))"

text \<open>
  \<open>instance.delete()\<close>: refuses an instance without a key, otherwise removes the rows
  of that key.
\<close>

definition delete_instance :: "Book \<Rightarrow> db \<Rightarrow> (error + unit) \<times> db" where
  "delete_instance b s =
     (case pk b of
        None \<Rightarrow> (Inl ValueError, s)
      | Some k \<Rightarrow> (Inr (), s\<lparr>rows := filter (\<lambda>r. pk r \<noteq> Some k) (rows s)\<rparr>))"

text \<open>
  Modelled from the spec: the truth value of a model instance in \<open>if book_instance:\<close>.
  The class \<open>Book\<close> (\<open>models.py\<close>) is not part of the sources at hand; an object whose
  class defines neither \<open>__bool__\<close> nor \<open>__len__\<close> is true, and section 4.3 of the
  specification describes the test as one that never fails.
\<close>

definition truthy :: "Book \<Rightarrow> bool" where
  "truthy b = True"

section \<open>Query resolvers\<close>

definition resolve_all_books :: "db \<Rightarrow> Book list" where
  "resolve_all_books s = objects_all s"

definition resolve_book :: "db \<Rightarrow> int option \<Rightarrow> error + Book" where
  "resolve_book s book_id = objects_get s book_id"

definition resolve_review :: "db \<Rightarrow> int option \<Rightarrow> Book list" where
  "resolve_review s book_review = objects_filter_review s book_review"

section \<open>The declared fields of the queries\<close>

text \<open>
  \<open>class Query\<close> declares \<open>all_books = graphene.List(BookType)\<close>,
  \<open>book = graphene.Field(BookType, ...)\<close> and \<open>review = graphene.Field(BookType, ...)\<close>.
  A field declared with \<open>graphene.Field(BookType)\<close> stands for one \<open>Book\<close> object, a
  field declared with \<open>graphene.List(BookType)\<close> for a list of them.
\<close>

datatype declared_type = Field_BookType | List_BookType

definition Query_all_books :: declared_type where
  "Query_all_books = List_BookType"

definition Query_book :: declared_type where
  "Query_book = Field_BookType"

definition Query_review :: declared_type where
  "Query_review = Field_BookType"

text \<open>
  What a resolver hands back is either one model instance or a collection of them (a
  query set); \<open>of_declared_type\<close> says whether such a value has the shape the field was
  declared with.
\<close>

datatype resolved = Instance Book | QuerySet "Book list"

fun of_declared_type :: "declared_type \<Rightarrow> resolved \<Rightarrow> bool" where
  "of_declared_type Field_BookType (Instance b) = True"
| "of_declared_type List_BookType (QuerySet bs) = True"
| "of_declared_type t v = False"

section \<open>Mutations\<close>

text \<open>
  The result objects \<open>CreateBook(book=...)\<close>, \<open>UpdateBook(book=...)\<close> and
  \<open>DeleteBook(book=...)\<close>, each with its one declared field \<open>book\<close>.
\<close>

datatype payload =
  CreateBook "Book option"
| UpdateBook "Book option"
| DeleteBook "Book option"

fun book :: "payload \<Rightarrow> Book option" where
  "book (CreateBook b) = b"
| "book (UpdateBook b) = b"
| "book (DeleteBook b) = b"

text \<open>
  A mutation takes the table and returns its outcome (an exception or a value) together
  with the table it leaves behind.
\<close>

definition CreateBook_mutate :: "BookInput \<Rightarrow> db \<Rightarrow> (error + payload) \<times> db" where
  "CreateBook_mutate book_data s =
     (let book_instance =
            \<lparr>pk = None,
             title = title_in book_data,
             author = author_in book_data,
             year_published = year_published_in book_data,
             review = review_in book_data\<rparr>;
          (book_instance, s) = save book_instance s
      in (Inr (CreateBook (Some book_instance)), s))"

definition UpdateBook_mutate :: "BookInput \<Rightarrow> db \<Rightarrow> (error + payload) \<times> db" where
  "UpdateBook_mutate book_data s =
     (case objects_get_id s (id_in book_data) of
        Inl e \<Rightarrow> (Inl e, s)
      | Inr book_instance \<Rightarrow>
          if truthy book_instance then
            (let book_instance = book_instance\<lparr>title := title_in book_data\<rparr>;
                 book_instance = book_instance\<lparr>author := author_in book_data\<rparr>;
                 book_instance =
                   book_instance\<lparr>year_published := year_published_in book_data\<rparr>;
                 book_instance = book_instance\<lparr>review := review_in book_data\<rparr>;
                 (book_instance, s) = save book_instance s
             in (Inr (UpdateBook (Some book_instance)), s))
          else (Inr (UpdateBook None), s))"

text \<open>\<open>DeleteBook.mutate\<close> ends in \<open>return None\<close>: its value is no result object.\<close>

definition DeleteBook_mutate :: "string option \<Rightarrow> db \<Rightarrow> (error + payload option) \<times> db" where
  "DeleteBook_mutate ident s =
     (case objects_get_id s ident of
        Inl e \<Rightarrow> (Inl e, s)
      | Inr book_instance \<Rightarrow>
          (case delete_instance book_instance s of
             (Inl e, s) \<Rightarrow> (Inl e, s)
           | (Inr u, s) \<Rightarrow> (Inr None, s)))"

text \<open>The \<open>book\<close> field of what a mutation returned, null when there is no object.\<close>

definition result_book :: "payload option \<Rightarrow> Book option" where
  "result_book p = (case p of None \<Rightarrow> None | Some q \<Rightarrow> book q)"

text \<open>
  The fields of \<open>class Mutation\<close>: \<open>create_book\<close>, \<open>update_book\<close> and
  \<open>delete_book\<close>, each bound to the \<open>mutate\<close> of its class. A request names one of
  them with its argument; \<open>state_after\<close> is the table the request leaves behind, and
  \<open>run\<close> serves a sequence of requests in order.
\<close>

datatype request =
  create_book BookInput
| update_book BookInput
| delete_book "string option"

fun state_after :: "request \<Rightarrow> db \<Rightarrow> db" where
  "state_after (create_book book_data) s = snd (CreateBook_mutate book_data s)"
| "state_after (update_book book_data) s = snd (UpdateBook_mutate book_data s)"
| "state_after (delete_book ident) s = snd (DeleteBook_mutate ident s)"

fun run :: "request list \<Rightarrow> db \<Rightarrow> db" where
  "run [] s = s"
| "run (q # qs) s = run qs (state_after q s)"

section \<open>Notation for the statements and sample data\<close>

text \<open>The record with key \<open>k\<close> whose four other fields are those of the input \<open>d\<close>.\<close>

abbreviation from_input :: "int option \<Rightarrow> BookInput \<Rightarrow> Book" where
  "from_input k d \<equiv>
     \<lparr>pk = k, title = title_in d, author = author_in d,
      year_published = year_published_in d, review = review_in d\<rparr>"

text \<open>
  The data of the scenario of section 8 of the specification, and a second book: a table
  with the books of keys 1 and 2, the input that creates the first book, the input that
  renames it, an input whose key is in no table below, and an input whose id is not a
  number.
\<close>

definition book_A :: Book where
  "book_A = \<lparr>pk = Some 1, title = Some ''A'', author = Some ''B'',
             year_published = Some ''2020'', review = Some 5\<rparr>"

definition book_C :: Book where
  "book_C = \<lparr>pk = Some 2, title = Some ''C'', author = Some ''D'',
             year_published = Some ''1999'', review = Some 3\<rparr>"

definition db_AC :: db where
  "db_AC = \<lparr>rows = [book_A, book_C], next_id = 3\<rparr>"

definition input_A :: BookInput where
  "input_A = \<lparr>id_in = None, title_in = Some ''A'', author_in = Some ''B'',
              year_published_in = Some ''2020'', review_in = Some 5\<rparr>"

definition input_A2 :: BookInput where
  "input_A2 = \<lparr>id_in = Some ''1'', title_in = Some ''A2'', author_in = Some ''B'',
               year_published_in = Some ''2020'', review_in = Some 5\<rparr>"

definition input_absent :: BookInput where
  "input_absent = \<lparr>id_in = Some ''7'', title_in = Some ''Z'', author_in = None,
                   year_published_in = None, review_in = Some 1\<rparr>"


section \<open>Facts about the storage accessor\<close>

lemma filter_Cons_holds: "filter P xs = y # ys \<Longrightarrow> y \<in> set xs \<and> P y"
proof -
  assume "filter P xs = y # ys"
  then have "y \<in> set (filter P xs)" by simp
  then show ?thesis by simp
qed

lemma objects_get_Inr_iff:
  "objects_get s key = Inr b \<longleftrightarrow> filter (\<lambda>r. pk r = key) (rows s) = [b]"
  by (simp add: objects_get_def split: list.splits)

lemma objects_get_DoesNotExist_iff:
  "objects_get s key = Inl DoesNotExist \<longleftrightarrow> (\<forall>r \<in> set (rows s). pk r \<noteq> key)"
proof (cases "filter (\<lambda>r. pk r = key) (rows s)")
  case Nil
  then show ?thesis by (simp add: objects_get_def filter_empty_conv)
next
  case (Cons y ys)
  from filter_Cons_holds [OF Cons] have "y \<in> set (rows s)" "pk y = key" by simp_all
  then have "\<exists>r \<in> set (rows s). pk r = key" by blast
  with Cons show ?thesis by (auto simp: objects_get_def split: list.splits)
qed

lemma objects_get_mem: "objects_get s key = Inr b \<Longrightarrow> b \<in> set (rows s) \<and> pk b = key"
  using filter_Cons_holds [of "\<lambda>r. pk r = key" "rows s" b "[]"]
  by (simp add: objects_get_Inr_iff)

lemma filter_distinct_key:
  "distinct (map f xs) \<Longrightarrow> b \<in> set xs \<Longrightarrow> filter (\<lambda>r. f r = f b) xs = [b]"
proof (induction xs)
  case Nil
  then show ?case by simp
next
  case (Cons x xs)
  show ?case
  proof (cases "x = b")
    case True
    with Cons.prems have "\<forall>r \<in> set xs. f r \<noteq> f b" by (auto simp: image_iff)
    then have "filter (\<lambda>r. f r = f b) xs = []" by (simp add: filter_empty_conv)
    with True show ?thesis by simp
  next
    case False
    with Cons.prems have "b \<in> set xs" "f x \<noteq> f b" by (auto simp: image_iff)
    with Cons show ?thesis by simp
  qed
qed

lemma objects_get_ok:
  "db_ok s \<Longrightarrow> b \<in> set (rows s) \<Longrightarrow> objects_get s (pk b) = Inr b"
  by (simp add: objects_get_Inr_iff db_ok_def filter_distinct_key)

lemma db_ok_key: "db_ok s \<Longrightarrow> r \<in> set (rows s) \<Longrightarrow> \<exists>k. pk r = Some k \<and> k < next_id s"
  by (auto simp: db_ok_def key_below_def list_all_iff split: option.splits)

lemma key_below_mono: "key_below n r \<Longrightarrow> n \<le> m \<Longrightarrow> key_below m r"
  by (auto simp: key_below_def split: option.splits)

lemma db_ok_empty: "db_ok empty_db"
  by (simp add: db_ok_def empty_db_def)


lemma save_new:
  "pk b = None \<Longrightarrow>
   save b s = (b\<lparr>pk := Some (next_id s)\<rparr>,
               s\<lparr>rows := rows s @ [b\<lparr>pk := Some (next_id s)\<rparr>], next_id := next_id s + 1\<rparr>)"
  by (simp add: save_def Let_def)

lemma save_existing:
  "pk b = Some k \<Longrightarrow> r \<in> set (rows s) \<Longrightarrow> pk r = Some k \<Longrightarrow>
   save b s = (b, s\<lparr>rows := map (\<lambda>r. if pk r = Some k then b else r) (rows s)\<rparr>)"
  by (auto simp: save_def list_ex_iff)

lemma map_pk_overwrite:
  "pk b = key \<Longrightarrow> map pk (map (\<lambda>r. if pk r = key then b else r) xs) = map pk xs"
  by (induction xs) auto

lemma filter_overwrite:
  "pk b = key \<Longrightarrow>
   filter (\<lambda>r. pk r = key) (map (\<lambda>r. if pk r = key then b else r) xs) =
   map (\<lambda>r. b) (filter (\<lambda>r. pk r = key) xs)"
  by (induction xs) auto

lemma db_ok_save:
  assumes ok: "db_ok s" and sv: "save b s = (b', s')"
  shows "db_ok s'"
proof (cases "pk b")
  case None
  have fresh: "Some (next_id s) \<notin> pk ` set (rows s)"
    using db_ok_key [OF ok] by fastforce
  have "list_all (key_below (next_id s + 1)) (rows s)"
    using ok key_below_mono [of "next_id s" _ "next_id s + 1"]
    by (auto simp: db_ok_def list_all_iff)
  with ok fresh None sv show ?thesis
    by (auto simp: save_new db_ok_def key_below_def)
next
  case (Some k)
  show ?thesis
  proof (cases "list_ex (\<lambda>r. pk r = Some k) (rows s)")
    case True
    then obtain r where r: "r \<in> set (rows s)" "pk r = Some k"
      by (auto simp: list_ex_iff)
    then have kb: "key_below (next_id s) b"
      using ok Some by (auto simp: db_ok_def list_all_iff key_below_def)
    have "list_all (key_below (next_id s)) (map (\<lambda>r. if pk r = Some k then b else r) (rows s))"
      using ok kb by (auto simp: db_ok_def list_all_iff)
    with ok Some True sv show ?thesis
      by (auto simp: save_def db_ok_def map_pk_overwrite simp del: map_map)
  next
    case False
    then have fresh: "Some k \<notin> pk ` set (rows s)"
      by (auto simp: list_ex_iff)
    have "list_all (key_below (max (next_id s) (k + 1))) (rows s)"
      using ok key_below_mono [of "next_id s" _ "max (next_id s) (k + 1)"]
      by (auto simp: db_ok_def list_all_iff)
    with ok Some False fresh sv show ?thesis
      by (auto simp: save_def db_ok_def key_below_def)
  qed
qed

lemma db_ok_delete_instance:
  "db_ok s \<Longrightarrow> delete_instance b s = (r, s') \<Longrightarrow> db_ok s'"
  by (auto simp: delete_instance_def db_ok_def list_all_iff distinct_map_filter
      split: option.splits)


lemma get_prep_value_number: "py_int i = Some k \<Longrightarrow> get_prep_value (Some i) = Inr (Some k)"
  by (simp add: get_prep_value_def)

lemma objects_get_id_prepared:
  "get_prep_value v = Inr key \<Longrightarrow> objects_get_id s v = objects_get s key"
  by (simp add: objects_get_id_def)


lemma objects_get_id_number:
  "py_int i = Some k \<Longrightarrow> objects_get_id s (Some i) = objects_get s (Some k)"
  by (simp add: objects_get_id_prepared get_prep_value_number)

lemmas py_int_defs =
  py_int_def max_str_digits_def read_nat_def digit_of_def strip_def is_space_def

lemma py_int_1: "py_int ''1'' = Some 1"
  by (simp add: py_int_defs)

lemma py_int_7: "py_int ''7'' = Some 7"
  by (simp add: py_int_defs)


lemma py_int_forms:
  "py_int '' 12 '' = Some 12 \<and> py_int ''-3'' = Some (- 3) \<and> py_int ''+1_000'' = Some 1000 \<and>
   py_int ''007'' = Some 7 \<and> py_int [] = None \<and> py_int ''1.0'' = None \<and>
   py_int ''1__0'' = None \<and> py_int ''- 1'' = None"
  by (simp add: py_int_defs)

lemma db_ok_CreateBook_mutate: "db_ok s \<Longrightarrow> db_ok (snd (CreateBook_mutate d s))"
  by (auto simp: CreateBook_mutate_def Let_def split: prod.splits dest: db_ok_save)

lemma db_ok_UpdateBook_mutate: "db_ok s \<Longrightarrow> db_ok (snd (UpdateBook_mutate d s))"
  by (auto simp: UpdateBook_mutate_def Let_def split: prod.splits sum.splits dest: db_ok_save)


lemma db_ok_DeleteBook_mutate: "db_ok s \<Longrightarrow> db_ok (snd (DeleteBook_mutate i s))"
  by (auto simp: DeleteBook_mutate_def split: prod.splits sum.splits
      dest: db_ok_delete_instance)


lemma db_ok_state_after: "db_ok s \<Longrightarrow> db_ok (state_after q s)"
  by (cases q)
    (simp_all add: db_ok_CreateBook_mutate db_ok_UpdateBook_mutate db_ok_DeleteBook_mutate)

lemma db_ok_run: "db_ok s \<Longrightarrow> db_ok (run qs s)"
  by (induction qs arbitrary: s) (simp_all add: db_ok_state_after)

lemma db_ok_reachable: "db_ok (run qs empty_db)"
  by (simp add: db_ok_run db_ok_empty)

lemma filter_others_overwrite:
  "pk b = key \<Longrightarrow>
   filter (\<lambda>r. pk r \<noteq> key) (map (\<lambda>r. if pk r = key then b else r) xs) =
   filter (\<lambda>r. pk r \<noteq> key) xs"
  by (induction xs) auto

section \<open>What each mutation computes\<close>

lemma CreateBook_mutate_eq:
  "CreateBook_mutate d s =
     (Inr (CreateBook (Some (from_input (Some (next_id s)) d))),
      s\<lparr>rows := rows s @ [from_input (Some (next_id s)) d], next_id := next_id s + 1\<rparr>)"
  by (simp add: CreateBook_mutate_def save_new)


lemma UpdateBook_mutate_found:
  assumes key: "id_in d = Some i" "py_int i = Some k"
    and found: "objects_get s (Some k) = Inr b0"
  shows "UpdateBook_mutate d s =
     (Inr (UpdateBook (Some (from_input (Some k) d))),
      s\<lparr>rows := map (\<lambda>r. if pk r = Some k then from_input (Some k) d else r) (rows s)\<rparr>)"
proof -
  from objects_get_mem [OF found] have b0: "b0 \<in> set (rows s)" "pk b0 = Some k"
    by simp_all
  let ?b = "b0\<lparr>title := title_in d, author := author_in d,
               year_published := year_published_in d, review := review_in d\<rparr>"
  have eq: "?b = from_input (Some k) d"
    using b0(2) by simp
  have "pk ?b = Some k"
    using b0(2) by simp
  from save_existing [OF this b0] eq
  have "save ?b s =
     (from_input (Some k) d,
      s\<lparr>rows := map (\<lambda>r. if pk r = Some k then from_input (Some k) d else r) (rows s)\<rparr>)"
    by simp
  with key found show ?thesis
    by (simp add: UpdateBook_mutate_def truthy_def objects_get_id_number)
qed

lemma DeleteBook_mutate_error:
  "objects_get_id s i = Inl e \<Longrightarrow> DeleteBook_mutate i s = (Inl e, s)"
  by (simp add: DeleteBook_mutate_def)

lemma DeleteBook_mutate_found:
  assumes key: "py_int i = Some k" and found: "objects_get s (Some k) = Inr b"
  shows "DeleteBook_mutate (Some i) s =
     (Inr None, s\<lparr>rows := filter (\<lambda>r. pk r \<noteq> Some k) (rows s)\<rparr>)"
proof -
  from objects_get_mem [OF found] have "pk b = Some k" by simp
  with key found show ?thesis
    by (simp add: DeleteBook_mutate_def delete_instance_def objects_get_id_number)
qed

lemma sample_get_A: "objects_get db_AC (Some 1) = Inr book_A"
  by (simp add: objects_get_def db_AC_def book_A_def book_C_def)

lemma sample_get_absent: "objects_get db_AC (Some 7) = Inl DoesNotExist"
  by (simp add: objects_get_def db_AC_def book_A_def book_C_def)

lemma sample_db_ok: "db_ok db_AC"
  by (simp add: db_ok_def key_below_def db_AC_def book_A_def book_C_def)

section \<open>The scenario of the specification, run on the model\<close>

text \<open>
  Section 8 of the specification: creating the book \<open>A\<close> in the empty table assigns
  the key 1; after the update the fetch shows the title \<open>A2\<close>; after the delete the
  fetch fails and \<open>allBooks\<close> is empty. A later create does not hand out key 1 again.
\<close>

lemmas model_defs =
  CreateBook_mutate_def UpdateBook_mutate_def DeleteBook_mutate_def save_def
  delete_instance_def objects_get_def objects_get_id_def get_prep_value_def py_int_defs
  objects_all_def truthy_def resolve_book_def resolve_all_books_def empty_db_def
  input_A_def input_A2_def book_A_def Let_def

lemma scenario_create:
  "CreateBook_mutate input_A empty_db =
     (Inr (CreateBook (Some book_A)), \<lparr>rows = [book_A], next_id = 2\<rparr>)"
  by (simp add: model_defs)

lemma scenario_update_fetch:
  "resolve_book (run [create_book input_A, update_book input_A2] empty_db) (Some 1) =
     Inr (book_A\<lparr>title := Some ''A2''\<rparr>)"
  by (simp add: model_defs)

lemma scenario_delete_fetch:
  "resolve_book
     (run [create_book input_A, update_book input_A2, delete_book (Some ''1'')] empty_db)
     (Some 1) = Inl DoesNotExist \<and>
   resolve_all_books
     (run [create_book input_A, update_book input_A2, delete_book (Some ''1'')] empty_db) = []"
  by (simp add: model_defs)

lemma scenario_key_not_reused:
  "fst (CreateBook_mutate input_A
     (run [create_book input_A, delete_book (Some ''1'')] empty_db)) =
     Inr (CreateBook (Some (book_A\<lparr>pk := Some 2\<rparr>)))"
  by (simp add: model_defs)

section \<open>Properties of the queries and mutations\<close>

text \<open>
  Claim C1. When the \<open>id\<close> of the input of the update mutation is the literal of the
  key \<open>k\<close> of a stored record, the mutation returns the record whose \<open>title\<close>, \<open>author\<close>,
  \<open>year_published\<close> and \<open>review\<close> are the four input values, whatever the record
  held before and whether or not an input value is \<open>None\<close>; the record is persisted:
  the \<open>book\<close> query for that key returns it, and it is among \<open>allBooks\<close>.
\<close>
theorem update_overwrites_all_fields:
  assumes "id_in d = Some i" and "py_int i = Some k" and "objects_get s (Some k) = Inr b0"
  shows "fst (UpdateBook_mutate d s) = Inr (UpdateBook (Some (from_input (Some k) d))) \<and>
         resolve_book (snd (UpdateBook_mutate d s)) (Some k) = Inr (from_input (Some k) d) \<and>
         from_input (Some k) d \<in> set (resolve_all_books (snd (UpdateBook_mutate d s)))"
proof -
  let ?b = "from_input (Some k) d"
  let ?s' = "s\<lparr>rows := map (\<lambda>r. if pk r = Some k then ?b else r) (rows s)\<rparr>"
  have run: "UpdateBook_mutate d s = (Inr (UpdateBook (Some ?b)), ?s')"
    using assms by (rule UpdateBook_mutate_found)
  have one: "filter (\<lambda>r. pk r = Some k) (rows s) = [b0]"
    using assms(3) by (simp add: objects_get_Inr_iff)
  have "filter (\<lambda>r. pk r = Some k) (rows ?s') = [?b]"
    using filter_overwrite [of ?b "Some k" "rows s"] one by simp
  then have get: "resolve_book ?s' (Some k) = Inr ?b"
    by (simp add: resolve_book_def objects_get_Inr_iff)
  then have "?b \<in> set (rows ?s')"
    using objects_get_mem [of ?s' "Some k" ?b] by (simp add: resolve_book_def)
  with run get show ?thesis
    by (simp add: resolve_all_books_def objects_all_def)
qed

theorem update_overwrites_all_fields_witness:
  "fst (UpdateBook_mutate input_A2 db_AC) =
     Inr (UpdateBook (Some \<lparr>pk = Some 1, title = Some ''A2'', author = Some ''B'',
                             year_published = Some ''2020'', review = Some 5\<rparr>)) \<and>
   resolve_book (snd (UpdateBook_mutate input_A2 db_AC)) (Some 1) =
     Inr \<lparr>pk = Some 1, title = Some ''A2'', author = Some ''B'',
          year_published = Some ''2020'', review = Some 5\<rparr>"
proof -
  have i: "id_in input_A2 = Some ''1''" by (simp add: input_A2_def)
  show ?thesis
    using update_overwrites_all_fields [OF i py_int_1 sample_get_A]
    by (simp add: input_A2_def)
qed








text \<open>
  Claim C4. Whenever the delete mutation succeeds its value is \<open>None\<close>: there is no
  result object, hence the declared \<open>book\<close> field is null and never carries the data
  of the deleted record.
\<close>
theorem delete_result_null:
  "fst (DeleteBook_mutate ident s) = Inr p \<Longrightarrow> p = None \<and> result_book p = None"
  by (auto simp: DeleteBook_mutate_def delete_instance_def result_book_def
      split: sum.splits option.splits)

theorem delete_result_null_witness:
  "fst (DeleteBook_mutate (Some ''1'') db_AC) = Inr None \<and> result_book None = None"
proof -
  have run: "fst (DeleteBook_mutate (Some ''1'') db_AC) = Inr None"
    by (simp add: DeleteBook_mutate_found [OF py_int_1 sample_get_A])
  from delete_result_null [OF run] run show ?thesis by simp
qed

text \<open>
  Claim C5. The \<open>book\<close> query returns the record \<open>b\<close> when \<open>b\<close> is stored, has the
  key \<open>book_id\<close>, and is the one row of that key; it yields the error \<open>DoesNotExist\<close>
  of the storage accessor, as it came, when no stored record has that key.
\<close>
theorem resolve_book_one_or_not_found:
  "(b \<in> set (rows s) \<and> pk b = book_id \<and>
      length (filter (\<lambda>r. pk r = book_id) (rows s)) = 1 \<longrightarrow>
      resolve_book s book_id = Inr b) \<and>
   ((\<forall>r \<in> set (rows s). pk r \<noteq> book_id) \<longrightarrow> resolve_book s book_id = Inl DoesNotExist)"
proof (intro conjI impI)
  assume h: "b \<in> set (rows s) \<and> pk b = book_id \<and>
      length (filter (\<lambda>r. pk r = book_id) (rows s)) = 1"
  then obtain x where x: "filter (\<lambda>r. pk r = book_id) (rows s) = [x]"
    by (auto simp: length_Suc_conv)
  from h have "b \<in> set (filter (\<lambda>r. pk r = book_id) (rows s))" by simp
  with x have "x = b" by simp
  with x show "resolve_book s book_id = Inr b"
    by (simp add: resolve_book_def objects_get_Inr_iff)
next
  assume "\<forall>r \<in> set (rows s). pk r \<noteq> book_id"
  then show "resolve_book s book_id = Inl DoesNotExist"
    by (simp add: resolve_book_def objects_get_DoesNotExist_iff)
qed

theorem resolve_book_one_or_not_found_witness:
  "resolve_book db_AC (Some 2) = Inr book_C \<and> resolve_book db_AC (Some 7) = Inl DoesNotExist"
proof -
  have one: "book_C \<in> set (rows db_AC) \<and> pk book_C = Some 2 \<and>
      length (filter (\<lambda>r. pk r = Some 2) (rows db_AC)) = 1"
    by (simp add: db_AC_def book_A_def book_C_def)
  have none: "\<forall>r \<in> set (rows db_AC). pk r \<noteq> Some 7"
    by (simp add: db_AC_def book_A_def book_C_def)
  from resolve_book_one_or_not_found [of book_C db_AC "Some 2"] one
    resolve_book_one_or_not_found [of book_C db_AC "Some 7"] none
  show ?thesis by blast
qed

text \<open>
  The value the \<open>review\<close> resolver returns holds exactly the stored records whose
  \<open>review\<close> equals the argument, each as often as it is stored; it is the empty list
  when no record matches. That value is a collection for every table and argument, while
  the field is declared as one \<open>Book\<close> object.
\<close>

lemma resolve_review_exact_matches:
  "set (resolve_review s n) = {r \<in> set (rows s). review r = n} \<and>
   (\<forall>r. count_list (resolve_review s n) r =
        (if review r = n then count_list (rows s) r else 0)) \<and>
   ((\<forall>r \<in> set (rows s). review r \<noteq> n) \<longrightarrow> resolve_review s n = [])"
proof -
  have cnt: "count_list (filter (\<lambda>r. review r = n) xs) r =
      (if review r = n then count_list xs r else 0)" for xs :: "Book list" and r
    by (induction xs) auto
  show ?thesis
    by (auto simp: resolve_review_def objects_filter_review_def cnt filter_empty_conv)
qed

lemma review_never_of_declared_type:
  "\<not> of_declared_type Query_review (QuerySet (resolve_review s n))"
  by (simp add: Query_review_def)

lemma all_books_of_declared_type:
  "of_declared_type Query_all_books (QuerySet (resolve_all_books s))"
  by (simp add: Query_all_books_def)

text \<open>
  Claim C6. The \<open>review\<close> query is to yield the list of exactly the stored records whose
  \<open>review\<close> equals the argument, and the empty list when none matches. On the table of
  the books \<open>A\<close> (review 5) and \<open>C\<close> (review 3) the resolver does return the list of
  \<open>C\<close> for the argument 3 and the empty list for 4; but \<open>review\<close> is declared
  \<open>graphene.Field(BookType)\<close>, one object, so neither value has the declared type of
  the field, whereas the value of \<open>all_books\<close>, declared \<open>graphene.List(BookType)\<close>,
  has.
\<close>
theorem review_collection_for_single_field:
  "resolve_review db_AC (Some 3) = [book_C] \<and>
   resolve_review db_AC (Some 4) = [] \<and>
   Query_review = Field_BookType \<and>
   \<not> of_declared_type Query_review (QuerySet (resolve_review db_AC (Some 3))) \<and>
   \<not> of_declared_type Query_review (QuerySet (resolve_review db_AC (Some 4))) \<and>
   of_declared_type Query_all_books (QuerySet (resolve_all_books db_AC))"
  by (simp add: resolve_review_def objects_filter_review_def resolve_all_books_def
      objects_all_def Query_review_def Query_all_books_def db_AC_def book_A_def book_C_def)

text \<open>
  Claim C7. The create mutation always succeeds; the record it returns has the key taken
  from the counter of the table (so its key is not null) and the \<open>title\<close>, \<open>author\<close>,
  \<open>year_published\<close> and \<open>review\<close> of the input; that record is appended to the table;
  the \<open>id\<close> of the input has no influence; and in a table that satisfies the invariant
  the assigned key is new.
\<close>
theorem create_assigns_id_and_fields:
  "fst (CreateBook_mutate d s) = Inr (CreateBook (Some (from_input (Some (next_id s)) d))) \<and>
   rows (snd (CreateBook_mutate d s)) = rows s @ [from_input (Some (next_id s)) d] \<and>
   CreateBook_mutate (d\<lparr>id_in := x\<rparr>) s = CreateBook_mutate d s \<and>
   (db_ok s \<longrightarrow> (\<forall>r \<in> set (rows s). pk r \<noteq> Some (next_id s)))"
proof -
  have fresh: "pk r \<noteq> Some (next_id s)" if "db_ok s" "r \<in> set (rows s)" for r
    using db_ok_key [OF that] by auto
  then show ?thesis
    by (simp add: CreateBook_mutate_eq)
qed

theorem create_assigns_id_and_fields_witness:
  "fst (CreateBook_mutate input_A2 db_AC) =
     Inr (CreateBook (Some \<lparr>pk = Some 3, title = Some ''A2'', author = Some ''B'',
                             year_published = Some ''2020'', review = Some 5\<rparr>)) \<and>
   Some 3 \<notin> set (map pk (rows db_AC))"
  using create_assigns_id_and_fields [of input_A2 db_AC None] sample_db_ok
  by (auto simp: input_A2_def db_AC_def)



text \<open>
  Claim C9. An update or delete mutation whose \<open>id\<close> is null or the literal of a
  number, with a key that no record has, fails with \<open>DoesNotExist\<close>; and an update or
  delete mutation that fails, with this or any other error, leaves the table exactly as
  it was.
\<close>
theorem failed_mutation_keeps_state:
  "(get_prep_value (id_in d) = Inr key \<and> (\<forall>r \<in> set (rows s). pk r \<noteq> key) \<longrightarrow>
      fst (UpdateBook_mutate d s) = Inl DoesNotExist) \<and>
   (fst (UpdateBook_mutate d s) = Inl e \<longrightarrow> snd (UpdateBook_mutate d s) = s) \<and>
   (get_prep_value ident = Inr key' \<and> (\<forall>r \<in> set (rows s). pk r \<noteq> key') \<longrightarrow>
      fst (DeleteBook_mutate ident s) = Inl DoesNotExist) \<and>
   (fst (DeleteBook_mutate ident s) = Inl e \<longrightarrow> snd (DeleteBook_mutate ident s) = s)"
proof (intro conjI impI)
  assume "get_prep_value (id_in d) = Inr key \<and> (\<forall>r \<in> set (rows s). pk r \<noteq> key)"
  then have "objects_get_id s (id_in d) = Inl DoesNotExist"
    by (simp add: objects_get_id_prepared objects_get_DoesNotExist_iff)
  then show "fst (UpdateBook_mutate d s) = Inl DoesNotExist"
    by (simp add: UpdateBook_mutate_def)
next
  assume "fst (UpdateBook_mutate d s) = Inl e"
  then show "snd (UpdateBook_mutate d s) = s"
    by (auto simp: UpdateBook_mutate_def truthy_def Let_def split: sum.splits prod.splits)
next
  assume "get_prep_value ident = Inr key' \<and> (\<forall>r \<in> set (rows s). pk r \<noteq> key')"
  then have "objects_get_id s ident = Inl DoesNotExist"
    by (simp add: objects_get_id_prepared objects_get_DoesNotExist_iff)
  then show "fst (DeleteBook_mutate ident s) = Inl DoesNotExist"
    by (simp add: DeleteBook_mutate_def)
next
  assume "fst (DeleteBook_mutate ident s) = Inl e"
  then show "snd (DeleteBook_mutate ident s) = s"
    by (auto simp: DeleteBook_mutate_def delete_instance_def
        split: sum.splits option.splits)
qed

theorem failed_mutation_keeps_state_witness:
  "UpdateBook_mutate input_absent db_AC = (Inl DoesNotExist, db_AC) \<and>
   DeleteBook_mutate (Some ''7'') db_AC = (Inl DoesNotExist, db_AC)"
proof -
  have "get_prep_value (id_in input_absent) = Inr (Some 7)"
    and "get_prep_value (Some ''7'') = Inr (Some 7)"
    and "\<forall>r \<in> set (rows db_AC). pk r \<noteq> Some 7"
    by (simp_all add: db_AC_def book_A_def book_C_def input_absent_def
        get_prep_value_number py_int_7)
  with failed_mutation_keeps_state
    [of input_absent "Some 7" db_AC DoesNotExist "Some ''7''" "Some 7"]
  show ?thesis by (simp add: prod_eq_iff)
qed

text \<open>
  Claim C10. A successful update of the record of key \<open>k\<close> (the \<open>id\<close> of the input
  is the literal of \<open>k\<close>, and the lookup finds the record) returns a record with the
  key it had, keeps the keys of all rows in place, leaves every row of another key as it
  was and where it was, and leaves the key counter alone; a create mutation keeps all the
  rows that were there, unchanged and in place, and adds one.
\<close>
theorem mutations_frame:
  "(id_in d = Some i \<and> py_int i = Some k \<and> objects_get s (Some k) = Inr b0 \<longrightarrow>
      (\<exists>b. fst (UpdateBook_mutate d s) = Inr (UpdateBook (Some b)) \<and> pk b = pk b0) \<and>
      map pk (rows (snd (UpdateBook_mutate d s))) = map pk (rows s) \<and>
      filter (\<lambda>r. pk r \<noteq> Some k) (rows (snd (UpdateBook_mutate d s))) =
        filter (\<lambda>r. pk r \<noteq> Some k) (rows s) \<and>
      (\<forall>j < length (rows s). pk (rows s ! j) \<noteq> Some k \<longrightarrow>
         rows (snd (UpdateBook_mutate d s)) ! j = rows s ! j) \<and>
      next_id (snd (UpdateBook_mutate d s)) = next_id s) \<and>
   take (length (rows s)) (rows (snd (CreateBook_mutate c s))) = rows s \<and>
   length (rows (snd (CreateBook_mutate c s))) = length (rows s) + 1"
proof (intro conjI impI)
  assume h: "id_in d = Some i \<and> py_int i = Some k \<and> objects_get s (Some k) = Inr b0"
  then have run: "UpdateBook_mutate d s =
     (Inr (UpdateBook (Some (from_input (Some k) d))),
      s\<lparr>rows := map (\<lambda>r. if pk r = Some k then from_input (Some k) d else r) (rows s)\<rparr>)"
    using UpdateBook_mutate_found by blast
  from h objects_get_mem [of s "Some k" b0] have b0: "pk b0 = Some k" by simp
  show "\<exists>b. fst (UpdateBook_mutate d s) = Inr (UpdateBook (Some b)) \<and> pk b = pk b0"
    by (simp add: run b0)
  show "map pk (rows (snd (UpdateBook_mutate d s))) = map pk (rows s)"
    using map_pk_overwrite [of "from_input (Some k) d" "Some k" "rows s"]
    by (simp add: run)
  show "filter (\<lambda>r. pk r \<noteq> Some k) (rows (snd (UpdateBook_mutate d s))) =
        filter (\<lambda>r. pk r \<noteq> Some k) (rows s)"
    using filter_others_overwrite [of "from_input (Some k) d" "Some k" "rows s"]
    by (simp add: run)
  show "\<forall>j < length (rows s). pk (rows s ! j) \<noteq> Some k \<longrightarrow>
         rows (snd (UpdateBook_mutate d s)) ! j = rows s ! j"
    by (simp add: run)
  show "next_id (snd (UpdateBook_mutate d s)) = next_id s"
    by (simp add: run)
next
  show "take (length (rows s)) (rows (snd (CreateBook_mutate c s))) = rows s"
    by (simp add: CreateBook_mutate_eq)
  show "length (rows (snd (CreateBook_mutate c s))) = length (rows s) + 1"
    by (simp add: CreateBook_mutate_eq)
qed

theorem mutations_frame_witness:
  "map pk (rows (snd (UpdateBook_mutate input_A2 db_AC))) = [Some 1, Some 2] \<and>
   rows (snd (UpdateBook_mutate input_A2 db_AC)) ! 1 = book_C \<and>
   take 2 (rows (snd (CreateBook_mutate input_A db_AC))) = [book_A, book_C]"
proof -
  have h: "id_in input_A2 = Some ''1'' \<and> py_int ''1'' = Some 1 \<and>
      objects_get db_AC (Some 1) = Inr book_A"
    by (simp add: input_A2_def sample_get_A py_int_1)
  have two: "rows db_AC = [book_A, book_C]" "pk book_A = Some 1" "pk book_C = Some 2"
    by (simp_all add: db_AC_def book_A_def book_C_def)
  from mutations_frame [of input_A2 "''1''" 1 db_AC book_A input_A] h
  have keys: "map pk (rows (snd (UpdateBook_mutate input_A2 db_AC))) = map pk (rows db_AC)"
    and others: "\<forall>j < length (rows db_AC). pk (rows db_AC ! j) \<noteq> Some 1 \<longrightarrow>
         rows (snd (UpdateBook_mutate input_A2 db_AC)) ! j = rows db_AC ! j"
    and old: "take (length (rows db_AC)) (rows (snd (CreateBook_mutate input_A db_AC))) =
         rows db_AC"
    by blast+
  from others [rule_format, of 1]
  have "rows (snd (UpdateBook_mutate input_A2 db_AC)) ! 1 = book_C"
    by (simp add: two)
  moreover from old have "take 2 (rows (snd (CreateBook_mutate input_A db_AC))) = [book_A, book_C]"
    by (simp add: two numeral_2_eq_2)
  ultimately show ?thesis
    using keys by (simp add: two)
qed

end
